theory Spec2Isabelle
  imports Main "HOL-Library.AList"
begin

section \<open>WebrtcManager: the perfect-negotiation coordinator of a meshed peer network\<close>

text \<open>
  A shallow embedding of \<^verbatim>\<open>src/lib/webrtc-manager.js\<close> (class \<^verbatim>\<open>WebrtcManager\<close>).

  Conventions of the embedding.
  \<^item> The transport engine (\<^verbatim>\<open>RTCPeerConnection\<close> of the package \<^verbatim>\<open>wrtc\<close>) is not part of the
    repository. It is a parameter: a record of operations over an abstract connection state
    \<open>'c\<close>. Every theorem holds for every engine. The operations that return a promise
    (\<^verbatim>\<open>createOffer\<close>, \<^verbatim>\<open>createAnswer\<close>, \<^verbatim>\<open>setLocalDescription\<close>, \<^verbatim>\<open>setRemoteDescription\<close>,
    \<^verbatim>\<open>addIceCandidate\<close>) may reject; the constructor, \<^verbatim>\<open>createDataChannel\<close>, \<^verbatim>\<open>restartIce\<close> and
    the two \<^verbatim>\<open>close()\<close> methods are called by the source outside any \<^verbatim>\<open>try\<close> and are taken to
    complete normally, as the WebRTC interface defines them.
  \<^item> Everything the code does to the outside world is an entry of an event list, in the order
    the code does it: a call into the engine, a \<^verbatim>\<open>signalingChannel.sendTo\<close>, a console line, a
    call of the application's data-channel handler. \<^verbatim>\<open>sendTo\<close> and the console complete normally.
  \<^item> An \<^verbatim>\<open>async\<close> function is run to completion in one step (no other handler is interleaved
    at its \<^verbatim>\<open>await\<close> points) and yields \<open>Resolved\<close> or \<open>Rejected e\<close>.
  \<^item> A peer object is the value stored in \<^verbatim>\<open>this.peers\<close>; a function that mutates the peer
    it is given returns the new value, and its caller stores it back under the key the
    object was read from.
  \<^item> \<^verbatim>\<open>this.peers\<close> is a plain object: its own entries are an association list in insertion
    order, and it inherits the properties of \<^verbatim>\<open>Object.prototype\<close>, which \<^verbatim>\<open>peerId in this.peers\<close>,
    \<^verbatim>\<open>this.peers[peerId]\<close> and \<^verbatim>\<open>for-in\<close> see as well (section "The object this.peers").
\<close>

subsection \<open>Values exchanged with the relay and the engine\<close>

text \<open>\<^verbatim>\<open>RTCSessionDescriptionInit\<close>: \<^verbatim>\<open>{ type, sdp }\<close>; the rollback description has no \<^verbatim>\<open>sdp\<close>.\<close>

record description =
  type :: string
  sdp :: "string option"

text \<open>
  The \<^verbatim>\<open>ice\<close> field of a message as a JavaScript value: absent, \<^verbatim>\<open>null\<close>, a string, or a
  candidate object (here its candidate line). \<open>truthy_ice\<close> is JavaScript's truthiness,
  which \<^verbatim>\<open>candidate && ...\<close> tests: only \<^verbatim>\<open>undefined\<close>, \<^verbatim>\<open>null\<close> and the empty string are falsy.
\<close>

datatype ice_value = IceUndefined | IceNull | IceString string | IceCandidateInit string

fun truthy_ice :: "ice_value \<Rightarrow> bool" where
  "truthy_ice IceUndefined = False"
| "truthy_ice IceNull = False"
| "truthy_ice (IceString s) = (s \<noteq> [])"
| "truthy_ice (IceCandidateInit c) = True"

text \<open>A boolean that may be \<^verbatim>\<open>undefined\<close> (\<^verbatim>\<open>bePolite\<close> is optional in a message).\<close>

definition truthy :: "bool option \<Rightarrow> bool" where
  "truthy b \<longleftrightarrow> b = Some True"

datatype error = TypeError | DOMException string | AppError string

datatype promise = Resolved | Rejected error

text \<open>
  How a call of the synchronous \<^verbatim>\<open>signalingMessageHandler\<close> ends: it returns, it throws, or
  it returns while the promise of the \<^verbatim>\<open>async\<close> function it called (and neither awaited nor
  gave a rejection handler) is rejected: an unhandled rejection.
\<close>

datatype outcome = Returned | Thrown error | UnhandledRejection error

text \<open>The payload of an outbound \<^verbatim>\<open>sendTo\<close>: \<^verbatim>\<open>{action: "sdp", sdp}\<close> or \<^verbatim>\<open>{action: "ice", ice}\<close>.\<close>

datatype out_payload = OutSdp "description option" | OutIce ice_value

datatype engine_call =
    NewRTCPeerConnection
  | CreateDataChannel string
  | CreateOffer
  | CreateAnswer
  | SetLocalDescription description
  | SetRemoteDescription description
  | AddIceCandidate ice_value
  | RestartIce
  | DataChannelClose
  | Close

datatype event =
    Engine string engine_call
  | SendTo string out_payload
  | ConsoleLog string
  | ConsoleLogError error
  | ConsoleError error
  | DataChannelHandler string


subsection \<open>The transport engine, a parameter\<close>

record 'c engine =
  newRTCPeerConnection :: "string list \<Rightarrow> 'c"
  signalingState :: "'c \<Rightarrow> string"
  iceConnectionState :: "'c \<Rightarrow> string"
  localDescription :: "'c \<Rightarrow> description option"
  createOffer :: "'c \<Rightarrow> (error + description) \<times> 'c"
  createAnswer :: "'c \<Rightarrow> (error + description) \<times> 'c"
  setLocalDescription :: "description \<Rightarrow> 'c \<Rightarrow> error option \<times> 'c"
  setRemoteDescription :: "description \<Rightarrow> 'c \<Rightarrow> error option \<times> 'c"
  addIceCandidate :: "ice_value \<Rightarrow> 'c \<Rightarrow> error option \<times> 'c"
  restartIce :: "'c \<Rightarrow> 'c"
  createDataChannel :: "string \<Rightarrow> 'c \<Rightarrow> 'c"
  dataChannelClose :: "'c \<Rightarrow> 'c"
  close :: "'c \<Rightarrow> 'c"

subsection \<open>The data model\<close>

text \<open>The data channel of \<^verbatim>\<open>addPeer\<close>: \<^verbatim>\<open>createDataChannel(`${peerId}Channel`, {negotiated: true, id: 0})\<close>.\<close>

record data_channel =
  label :: string
  negotiated :: bool
  channel_id :: nat

text \<open>The peer object of \<^verbatim>\<open>addPeer\<close> (lines 90-99); its \<^verbatim>\<open>remove\<close> closure is \<open>remove\<close> below.\<close>

record 'c peer =
  peerId :: string
  peerType :: string
  polite :: "bool option"
  rtcPeerConnection :: 'c
  dataChannel :: "data_channel option"
  makingOffer :: bool
  ignoreOffer :: bool
  isSettingRemoteAnswerPending :: bool

text \<open>
  \<^verbatim>\<open>options\<close>, an object as the constructor documents it. \<^verbatim>\<open>dataChannelHandler(ourPeerId,
  ourPeerType, peer)\<close> is the application's; all the code sees of it is whether it throws.
  \<open>None\<close> is a handler that was not given: calling it is a TypeError, caught on line 110.
\<close>

record 'c options =
  enableDataChannel :: bool
  dataChannelHandler :: "(string \<Rightarrow> string \<Rightarrow> 'c peer \<Rightarrow> error option) option"

text \<open>
  The manager (constructor, lines 20-35). \<^verbatim>\<open>this.verbose\<close> is read throughout and never
  assigned by the class: it is false unless the host sets it. \<^verbatim>\<open>this.signalingChannel\<close> is
  the \<open>SendTo\<close> events; \<^verbatim>\<open>this.config\<close> is the constant \<open>config\<close>.

  \<open>peers\<close> holds the own entries of \<^verbatim>\<open>this.peers\<close>. \<open>prototype_ignoreOffer\<close> is not a field of
  the class: it is the one piece of state outside the manager that the code writes, see below.
\<close>

record 'c manager =
  ourPeerId :: string
  ourPeerType :: string
  peers :: "(string \<times> 'c peer) list"
  options :: "'c options"
  verbose :: bool
  prototype_ignoreOffer :: bool

definition config :: "string list" where
  "config = [''stun:stun.l.google.com:19302'', ''stun:stun1.l.google.com:19302'',
             ''stun:stun2.l.google.com:19302'']"

text \<open>
  A message of the relay: \<^verbatim>\<open>{ from, payload: { action, connections, bePolite, sdp, ice } }\<close>.
  A field that may be missing is an option. The fields \<^verbatim>\<open>from\<close> and \<^verbatim>\<open>sdp\<close> are \<open>from'\<close> and
  \<open>pl_sdp\<close> here, and \<^verbatim>\<open>peerId\<close>, \<^verbatim>\<open>peerType\<close> of a roster entry are \<open>np_peerId\<close>, \<open>np_peerType\<close>.
\<close>

record new_peer =
  np_peerId :: string
  np_peerType :: string

record payload =
  action :: string
  connections :: "new_peer list option"
  bePolite :: "bool option"
  pl_sdp :: "description option"
  ice :: ice_value

record message =
  from' :: string
  payload :: "payload option"

text \<open>
  The representation invariant of \<^verbatim>\<open>this.peers\<close>: keys are unique and every peer is stored
  under its own \<^verbatim>\<open>peerId\<close> (line 90 is the only write).
\<close>

definition wf_peers :: "(string \<times> 'c peer) list \<Rightarrow> bool" where
  "wf_peers ps \<longleftrightarrow> distinct (map fst ps) \<and> list_all (\<lambda>(k, p). peerId p = k) ps"

subsection \<open>The object this.peers\<close>

text \<open>
  \<^verbatim>\<open>this.peers = {}\<close> (line 26) is a plain object, so besides its own entries it has the
  properties it inherits from \<^verbatim>\<open>Object.prototype\<close>. Those are the twelve names below; none
  is enumerable. Eleven are functions; \<^verbatim>\<open>__proto__\<close> is an accessor that returns
  \<^verbatim>\<open>Object.prototype\<close> itself.
\<close>

definition object_prototype_names :: "string list" where
  "object_prototype_names =
     [''constructor'', ''__defineGetter__'', ''__defineSetter__'', ''hasOwnProperty'',
      ''__lookupGetter__'', ''__lookupSetter__'', ''isPrototypeOf'', ''propertyIsEnumerable'',
      ''toString'', ''valueOf'', ''__proto__'', ''toLocaleString'']"

text \<open>
  The only write the code ever makes to an inherited object is line 165,
  \<^verbatim>\<open>peer.ignoreOffer = !peer.polite && offerCollision\<close>, when \<^verbatim>\<open>peer\<close> is not a session. That line
  is reached without a TypeError only for a description whose type is not \<^verbatim>\<open>"offer"\<close>, and the
  value it assigns is then \<^verbatim>\<open>false\<close>. On one of the eleven functions this changes nothing the
  code reads (\<^verbatim>\<open>!peer.ignoreOffer\<close> is true as before). On \<^verbatim>\<open>Object.prototype\<close>, reached by the id
  \<^verbatim>\<open>"__proto__"\<close>, it creates an enumerable property \<^verbatim>\<open>ignoreOffer\<close> with value \<^verbatim>\<open>false\<close> that
  \<^verbatim>\<open>this.peers\<close> inherits from then on: \<open>prototype_ignoreOffer\<close> records that it exists.

  The value of \<^verbatim>\<open>this.peers[k]\<close>: a session, one of the eleven functions, \<^verbatim>\<open>Object.prototype\<close>,
  the inherited \<^verbatim>\<open>false\<close>, or \<^verbatim>\<open>undefined\<close>.
\<close>

datatype 'c property =
    Undefined
  | PeerObject "'c peer"
  | BuiltinFunction
  | ObjectPrototype
  | FalseValue

definition get_peer :: "'c manager \<Rightarrow> string \<Rightarrow> 'c property" where
  "get_peer m k =
     (case map_of (peers m) k of
        Some p \<Rightarrow> PeerObject p
      | None \<Rightarrow>
          if k = ''__proto__'' then ObjectPrototype
          else if k \<in> set object_prototype_names then BuiltinFunction
          else if prototype_ignoreOffer m \<and> k = ''ignoreOffer'' then FalseValue
          else Undefined)"

text \<open>\<^verbatim>\<open>k in this.peers\<close>\<close>

definition in_peers :: "'c manager \<Rightarrow> string \<Rightarrow> bool" where
  "in_peers m k \<longleftrightarrow>
     k \<in> set (map fst (peers m)) \<or> k \<in> set object_prototype_names
     \<or> (prototype_ignoreOffer m \<and> k = ''ignoreOffer'')"

text \<open>Storing back the peer a handler has mutated, under the key it was read from.\<close>

definition store_peer :: "string \<Rightarrow> 'c peer option \<Rightarrow> (string \<times> 'c peer) list \<Rightarrow> (string \<times> 'c peer) list" where
  "store_peer k po ps = (case po of None \<Rightarrow> ps | Some p \<Rightarrow> AList.update k p ps)"

subsection \<open>updateSessionDescription (lines 160-194)\<close>

text \<open>
  \<^verbatim>\<open>const offerCollision = description.type === "offer" &&
        (peer.makingOffer || peerConnection.signalingState != "stable");\<close>
\<close>

definition offerCollision :: "'c engine \<Rightarrow> 'c peer \<Rightarrow> description \<Rightarrow> bool" where
  "offerCollision E p d \<longleftrightarrow>
     type d = ''offer'' \<and> (makingOffer p \<or> signalingState E (rtcPeerConnection p) \<noteq> ''stable'')"

definition rollback :: description where
  "rollback = \<lparr>type = ''rollback'', sdp = None\<rparr>"

text \<open>
  Lines 175-182: with a collision, \<^verbatim>\<open>setLocalDescription({type: "rollback"})\<close> and then
  \<^verbatim>\<open>setRemoteDescription(description)\<close>; without, \<^verbatim>\<open>setRemoteDescription(description)\<close> alone.
  The third component is the error of the first call that rejected.
\<close>

definition apply_remote :: "'c engine \<Rightarrow> bool \<Rightarrow> 'c peer \<Rightarrow> description \<Rightarrow> 'c peer \<times> event list \<times> error option" where
  "apply_remote E collision p d =
     (if collision then
        (case setLocalDescription E rollback (rtcPeerConnection p) of
           (Some e, c1) \<Rightarrow>
             (p\<lparr>rtcPeerConnection := c1\<rparr>, [Engine (peerId p) (SetLocalDescription rollback)], Some e)
         | (None, c1) \<Rightarrow>
             (case setRemoteDescription E d c1 of
                (r, c2) \<Rightarrow>
                  (p\<lparr>rtcPeerConnection := c2\<rparr>,
                   [Engine (peerId p) (SetLocalDescription rollback),
                    Engine (peerId p) (SetRemoteDescription d)], r)))
      else
        (case setRemoteDescription E d (rtcPeerConnection p) of
           (r, c1) \<Rightarrow>
             (p\<lparr>rtcPeerConnection := c1\<rparr>, [Engine (peerId p) (SetRemoteDescription d)], r)))"

text \<open>
  Lines 187-189: \<^verbatim>\<open>setLocalDescription(await createAnswer())\<close>, the verbose line, and
  \<^verbatim>\<open>sendTo(peer.peerId, { action: "sdp", sdp: peerConnection.localDescription })\<close>.
\<close>

definition send_answer :: "'c engine \<Rightarrow> bool \<Rightarrow> 'c peer \<Rightarrow> 'c peer \<times> event list \<times> error option" where
  "send_answer E vb p =
     (case createAnswer E (rtcPeerConnection p) of
        (Inl e, c1) \<Rightarrow> (p\<lparr>rtcPeerConnection := c1\<rparr>, [Engine (peerId p) CreateAnswer], Some e)
      | (Inr answer, c1) \<Rightarrow>
          (case setLocalDescription E answer c1 of
             (Some e, c2) \<Rightarrow>
               (p\<lparr>rtcPeerConnection := c2\<rparr>,
                [Engine (peerId p) CreateAnswer, Engine (peerId p) (SetLocalDescription answer)],
                Some e)
           | (None, c2) \<Rightarrow>
               (p\<lparr>rtcPeerConnection := c2\<rparr>,
                [Engine (peerId p) CreateAnswer, Engine (peerId p) (SetLocalDescription answer)]
                @ (if vb then [ConsoleLog (''Sending answer to '' @ peerId p)] else [])
                @ [SendTo (peerId p) (OutSdp (localDescription E c2))],
                None)))"

text \<open>
  The body of the \<^verbatim>\<open>try\<close> for a peer and a description that are both there. Line 165 assigns
  \<^verbatim>\<open>peer.ignoreOffer = !peer.polite && offerCollision\<close> before anything else is done.
\<close>

definition sdp_try :: "'c engine \<Rightarrow> bool \<Rightarrow> 'c peer \<Rightarrow> description \<Rightarrow> 'c peer \<times> event list \<times> error option" where
  "sdp_try E vb p d =
     (let collision = offerCollision E p d;
          p1 = p\<lparr>ignoreOffer := \<not> truthy (polite p) \<and> collision\<rparr>
      in if ignoreOffer p1 then
           (p1, if vb then [ConsoleLog ''Peer offer was ignore because we are impolite''] else [], None)
         else
           (case apply_remote E collision p1 d of
              (p2, ev2, Some e) \<Rightarrow> (p2, ev2, Some e)
            | (p2, ev2, None) \<Rightarrow>
                if type d = ''offer'' then
                  (case send_answer E vb p2 of (p3, ev3, r) \<Rightarrow> (p3, ev2 @ ev3, r))
                else (p2, ev2, None)))"

text \<open>
  The whole function. \<^verbatim>\<open>peer.rtcPeerConnection\<close> of an undefined peer and \<^verbatim>\<open>description.type\<close>
  of an undefined description throw a TypeError inside the \<^verbatim>\<open>try\<close>; the \<^verbatim>\<open>catch\<close> passes
  every error to \<^verbatim>\<open>console.error\<close>, so the promise always resolves.
\<close>

definition updateSessionDescription ::
  "'c engine \<Rightarrow> bool \<Rightarrow> 'c peer option \<Rightarrow> description option \<Rightarrow> 'c peer option \<times> event list \<times> promise" where
  "updateSessionDescription E vb po dopt =
     (case po of
        None \<Rightarrow> (None, [ConsoleError TypeError], Resolved)
      | Some p \<Rightarrow>
          (case dopt of
             None \<Rightarrow> (Some p, [ConsoleError TypeError], Resolved)
           | Some d \<Rightarrow>
               (case sdp_try E vb p d of
                  (p', ev, None) \<Rightarrow> (Some p', ev, Resolved)
                | (p', ev, Some e) \<Rightarrow> (Some p', ev @ [ConsoleError e], Resolved))))"

text \<open>
  The function on the value of \<^verbatim>\<open>this.peers[from]\<close>. An inherited value has no
  \<^verbatim>\<open>rtcPeerConnection\<close>, so \<^verbatim>\<open>peerConnection\<close> is \<^verbatim>\<open>undefined\<close> and the \<^verbatim>\<open>try\<close> ends in a TypeError
  on every path: at \<^verbatim>\<open>description.type\<close> for a missing description, at
  \<^verbatim>\<open>peerConnection.signalingState\<close> for an offer, at the assignment of line 165 on the
  inherited \<^verbatim>\<open>false\<close> (class bodies are strict code), and otherwise at
  \<^verbatim>\<open>peerConnection.setRemoteDescription\<close>, after the assignment of line 165.
\<close>

definition updateSessionDescription_of ::
  "'c engine \<Rightarrow> bool \<Rightarrow> 'c property \<Rightarrow> description option \<Rightarrow> 'c peer option \<times> event list \<times> promise" where
  "updateSessionDescription_of E vb v dopt =
     (case v of
        Undefined \<Rightarrow> updateSessionDescription E vb None dopt
      | PeerObject p \<Rightarrow> updateSessionDescription E vb (Some p) dopt
      | BuiltinFunction \<Rightarrow> (None, [ConsoleError TypeError], Resolved)
      | ObjectPrototype \<Rightarrow> (None, [ConsoleError TypeError], Resolved)
      | FalseValue \<Rightarrow> (None, [ConsoleError TypeError], Resolved))"

text \<open>Whether the call has assigned \<^verbatim>\<open>ignoreOffer\<close> on \<^verbatim>\<open>Object.prototype\<close>.\<close>

definition assigns_prototype :: "'c property \<Rightarrow> description option \<Rightarrow> bool" where
  "assigns_prototype v dopt =
     (case v of
        ObjectPrototype \<Rightarrow> (case dopt of None \<Rightarrow> False | Some d \<Rightarrow> type d \<noteq> ''offer'')
      | _ \<Rightarrow> False)"

subsection \<open>updateIceCandidate (lines 202-210)\<close>

text \<open>
  \<^verbatim>\<open>const peerConnection = peer.rtcPeerConnection;\<close> stands before the \<^verbatim>\<open>try\<close>: with an undefined
  peer the TypeError rejects the promise. Inside the \<^verbatim>\<open>try\<close>, a falsy candidate is skipped, a
  truthy one is given to \<^verbatim>\<open>addIceCandidate\<close>; a rejection is caught and passed to \<^verbatim>\<open>console.log\<close>
  unless \<^verbatim>\<open>peer.ignoreOffer\<close> holds.
\<close>

definition updateIceCandidate ::
  "'c engine \<Rightarrow> 'c peer option \<Rightarrow> ice_value \<Rightarrow> 'c peer option \<times> event list \<times> promise" where
  "updateIceCandidate E po candidate =
     (case po of
        None \<Rightarrow> (None, [], Rejected TypeError)
      | Some p \<Rightarrow>
          if truthy_ice candidate then
            (case addIceCandidate E candidate (rtcPeerConnection p) of
               (None, c1) \<Rightarrow>
                 (Some (p\<lparr>rtcPeerConnection := c1\<rparr>),
                  [Engine (peerId p) (AddIceCandidate candidate)], Resolved)
             | (Some e, c1) \<Rightarrow>
                 (Some (p\<lparr>rtcPeerConnection := c1\<rparr>),
                  Engine (peerId p) (AddIceCandidate candidate)
                  # (if \<not> ignoreOffer p then [ConsoleLogError e] else []),
                  Resolved))
          else (Some p, [], Resolved))"

text \<open>
  The function on the value of \<^verbatim>\<open>this.peers[from]\<close>. For an inherited value line 203 gives
  \<^verbatim>\<open>undefined\<close> and does not throw; a truthy candidate then throws a TypeError inside the \<^verbatim>\<open>try\<close>,
  and \<^verbatim>\<open>!peer.ignoreOffer\<close> is true (the property is missing or \<^verbatim>\<open>false\<close>), so it is passed to
  \<^verbatim>\<open>console.log\<close>.
\<close>

definition updateIceCandidate_of ::
  "'c engine \<Rightarrow> 'c property \<Rightarrow> ice_value \<Rightarrow> 'c peer option \<times> event list \<times> promise" where
  "updateIceCandidate_of E v candidate =
     (case v of
        Undefined \<Rightarrow> updateIceCandidate E None candidate
      | PeerObject p \<Rightarrow> updateIceCandidate E (Some p) candidate
      | BuiltinFunction \<Rightarrow>
          (None, if truthy_ice candidate then [ConsoleLogError TypeError] else [], Resolved)
      | ObjectPrototype \<Rightarrow>
          (None, if truthy_ice candidate then [ConsoleLogError TypeError] else [], Resolved)
      | FalseValue \<Rightarrow>
          (None, if truthy_ice candidate then [ConsoleLogError TypeError] else [], Resolved))"

subsection \<open>removePeer (lines 218-227) and the remove closure (line 101)\<close>

text \<open>
  \<^verbatim>\<open>if (peer) { if (peer.dataChannel) peer.dataChannel.close(); peer.rtcPeerConnection.close();
  delete this.peers[peer.peerId]; ... }\<close>. The closed peer object leaves the map, so its final
  connection state is not kept.
\<close>

definition removePeer :: "'c engine \<Rightarrow> 'c manager \<Rightarrow> 'c peer option \<Rightarrow> 'c manager \<times> event list" where
  "removePeer E m po =
     (case po of
        None \<Rightarrow> (m, [])
      | Some p \<Rightarrow>
          (m\<lparr>peers := AList.delete (peerId p) (peers m)\<rparr>,
           (if dataChannel p \<noteq> None then [Engine (peerId p) DataChannelClose] else [])
           @ [Engine (peerId p) Close]
           @ (if verbose m then [ConsoleLog (''Connection with '' @ peerId p @ '' has been removed'')]
              else [])))"

text \<open>
  The function on the value of \<^verbatim>\<open>this.peers[k]\<close>. An inherited function and \<^verbatim>\<open>Object.prototype\<close>
  pass \<^verbatim>\<open>if (peer)\<close>, have no \<^verbatim>\<open>dataChannel\<close>, and \<^verbatim>\<open>peer.rtcPeerConnection.close()\<close> throws a
  TypeError out of \<^verbatim>\<open>removePeer\<close>; the inherited \<^verbatim>\<open>false\<close> does not pass \<^verbatim>\<open>if (peer)\<close>.
\<close>

definition removePeer_of ::
  "'c engine \<Rightarrow> 'c manager \<Rightarrow> 'c property \<Rightarrow> 'c manager \<times> event list \<times> outcome" where
  "removePeer_of E m v =
     (case v of
        Undefined \<Rightarrow> (case removePeer E m None of (m', ev) \<Rightarrow> (m', ev, Returned))
      | PeerObject p \<Rightarrow> (case removePeer E m (Some p) of (m', ev) \<Rightarrow> (m', ev, Returned))
      | BuiltinFunction \<Rightarrow> (m, [], Thrown TypeError)
      | ObjectPrototype \<Rightarrow> (m, [], Thrown TypeError)
      | FalseValue \<Rightarrow> (m, [], Returned))"

text \<open>\<^verbatim>\<open>this.peers[peerId].remove = () => this.removePeer(this.peers[peerId]);\<close>\<close>

definition remove :: "'c engine \<Rightarrow> 'c manager \<Rightarrow> string \<Rightarrow> 'c manager \<times> event list \<times> outcome" where
  "remove E m pid = removePeer_of E m (get_peer m pid)"

subsection \<open>updateNegotiationLogic (lines 126-150): the three callbacks\<close>

text \<open>\<^verbatim>\<open>onicecandidate = ({ candidate }) => sendTo(peer.peerId, { action: "ice", ice: candidate })\<close>\<close>

definition onicecandidate :: "'c peer \<Rightarrow> ice_value \<Rightarrow> event list" where
  "onicecandidate p candidate = [SendTo (peerId p) (OutIce candidate)]"

text \<open>
  \<^verbatim>\<open>onnegotiationneeded\<close>: only an impolite peer offers. \<^verbatim>\<open>makingOffer\<close> is true from line 133
  until the \<^verbatim>\<open>finally\<close>; the \<^verbatim>\<open>catch\<close> passes a rejection to \<^verbatim>\<open>console.error\<close>.
\<close>

definition onnegotiationneeded :: "'c engine \<Rightarrow> bool \<Rightarrow> 'c peer \<Rightarrow> 'c peer \<times> event list" where
  "onnegotiationneeded E vb p =
     (if \<not> truthy (polite p) then
        (case createOffer E (rtcPeerConnection (p\<lparr>makingOffer := True\<rparr>)) of
           (Inl e, c1) \<Rightarrow>
             (p\<lparr>rtcPeerConnection := c1, makingOffer := False\<rparr>,
              [Engine (peerId p) CreateOffer, ConsoleError e])
         | (Inr offer, c1) \<Rightarrow>
             (case setLocalDescription E offer c1 of
                (Some e, c2) \<Rightarrow>
                  (p\<lparr>rtcPeerConnection := c2, makingOffer := False\<rparr>,
                   [Engine (peerId p) CreateOffer, Engine (peerId p) (SetLocalDescription offer),
                    ConsoleError e])
              | (None, c2) \<Rightarrow>
                  (p\<lparr>rtcPeerConnection := c2, makingOffer := False\<rparr>,
                   [Engine (peerId p) CreateOffer, Engine (peerId p) (SetLocalDescription offer)]
                   @ (if vb then [ConsoleLog (''Sending offer to '' @ peerId p)] else [])
                   @ [SendTo (peerId p) (OutSdp (localDescription E c2))])))
      else (p\<lparr>makingOffer := False\<rparr>, []))"

text \<open>\<^verbatim>\<open>oniceconnectionstatechange\<close>: restart ICE when the state is \<^verbatim>\<open>"failed"\<close>.\<close>

definition oniceconnectionstatechange :: "'c engine \<Rightarrow> 'c peer \<Rightarrow> 'c peer \<times> event list" where
  "oniceconnectionstatechange E p =
     (if iceConnectionState E (rtcPeerConnection p) = ''failed'' then
        (p\<lparr>rtcPeerConnection := restartIce E (rtcPeerConnection p)\<rparr>, [Engine (peerId p) RestartIce])
      else (p, []))"

text \<open>
  The engine raising \<^verbatim>\<open>negotiationneeded\<close> on the connection of the session registered
  under \<open>pid\<close>: the callback runs on that peer object.
\<close>

definition negotiationneeded :: "'c engine \<Rightarrow> 'c manager \<Rightarrow> string \<Rightarrow> 'c manager \<times> event list" where
  "negotiationneeded E m pid =
     (case map_of (peers m) pid of
        None \<Rightarrow> (m, [])
      | Some p \<Rightarrow>
          (case onnegotiationneeded E (verbose m) p of
             (p', ev) \<Rightarrow> (m\<lparr>peers := store_peer pid (Some p') (peers m)\<rparr>, ev)))"

subsection \<open>addPeer (lines 85-117)\<close>

text \<open>
  An id that is \<^verbatim>\<open>in this.peers\<close>, as an own key or an inherited name, is left alone (line 86).
  Otherwise the peer object is stored under its
  id; with \<^verbatim>\<open>options.enableDataChannel\<close> the data channel is created and the application's
  handler called inside \<^verbatim>\<open>try\<close>/\<^verbatim>\<open>catch\<close>; \<^verbatim>\<open>updateNegotiationLogic\<close> then installs the three
  callbacks above, which changes no field of the model.
\<close>

definition new_peer_object :: "'c engine \<Rightarrow> string \<Rightarrow> string \<Rightarrow> bool option \<Rightarrow> 'c peer" where
  "new_peer_object E pid ptype pol =
     \<lparr>peerId = pid, peerType = ptype, polite = pol,
      rtcPeerConnection = newRTCPeerConnection E config, dataChannel = None,
      makingOffer = False, ignoreOffer = False, isSettingRemoteAnswerPending = False\<rparr>"

definition addPeer ::
  "'c engine \<Rightarrow> 'c manager \<Rightarrow> string \<Rightarrow> string \<Rightarrow> bool option \<Rightarrow> 'c manager \<times> event list" where
  "addPeer E m pid ptype pol =
     (if in_peers m pid then
        (m, if verbose m then [ConsoleLog (''A peer connection with '' @ pid @ '' already exists'')]
            else [])
      else if enableDataChannel (options m) then
        (let p0 = new_peer_object E pid ptype pol;
             p1 = p0\<lparr>rtcPeerConnection := createDataChannel E (pid @ ''Channel'') (rtcPeerConnection p0),
                     dataChannel := Some \<lparr>label = pid @ ''Channel'', negotiated = True, channel_id = 0\<rparr>\<rparr>
         in (m\<lparr>peers := AList.update pid p1 (peers m)\<rparr>,
             [Engine pid NewRTCPeerConnection, Engine pid (CreateDataChannel (pid @ ''Channel''))]
             @ (case dataChannelHandler (options m) of
                  None \<Rightarrow> [ConsoleError TypeError]
                | Some h \<Rightarrow>
                    (case h (ourPeerId m) (ourPeerType m) p1 of
                       None \<Rightarrow> [DataChannelHandler pid]
                     | Some e \<Rightarrow> [DataChannelHandler pid, ConsoleError e]))))
      else
        (m\<lparr>peers := AList.update pid (new_peer_object E pid ptype pol) (peers m)\<rparr>,
         [Engine pid NewRTCPeerConnection]))"

text \<open>\<^verbatim>\<open>connections.forEach((newPeer) => this.addPeer(newPeer.peerId, newPeer.peerType, bePolite))\<close>\<close>

fun forEach_addPeer ::
  "'c engine \<Rightarrow> 'c manager \<Rightarrow> new_peer list \<Rightarrow> bool option \<Rightarrow> 'c manager \<times> event list" where
  "forEach_addPeer E m [] pol = (m, [])"
| "forEach_addPeer E m (n # ns) pol =
     (case addPeer E m (np_peerId n) (np_peerType n) pol of
        (m1, ev1) \<Rightarrow>
          (case forEach_addPeer E m1 ns pol of (m2, ev2) \<Rightarrow> (m2, ev1 @ ev2)))"

subsection \<open>signalingMessageHandler (lines 43-64)\<close>

definition outcome_of :: "promise \<Rightarrow> outcome" where
  "outcome_of pr = (case pr of Resolved \<Rightarrow> Returned | Rejected e \<Rightarrow> UnhandledRejection e)"

text \<open>
  Destructuring an undefined payload (line 45) and \<^verbatim>\<open>connections.forEach\<close> of undefined
  connections (line 48) throw a TypeError, and so does \<^verbatim>\<open>sdp.type\<close> in the verbose line 54 when
  the message has no \<^verbatim>\<open>sdp\<close>. The promises of lines 55 and 58 are dropped. \<^verbatim>\<open>this.peers[from]\<close>
  is \<open>get_peer\<close>: for an inherited name it is not \<^verbatim>\<open>undefined\<close>.
\<close>

definition signalingMessageHandler ::
  "'c engine \<Rightarrow> 'c manager \<Rightarrow> message \<Rightarrow> 'c manager \<times> event list \<times> outcome" where
  "signalingMessageHandler E m msg =
     (case payload msg of
        None \<Rightarrow> (m, [], Thrown TypeError)
      | Some pl \<Rightarrow>
          if action pl = ''open'' then
            (case connections pl of
               None \<Rightarrow> (m, [], Thrown TypeError)
             | Some cs \<Rightarrow>
                 (case forEach_addPeer E m cs (bePolite pl) of (m', ev) \<Rightarrow> (m', ev, Returned)))
          else if action pl = ''close'' then
            removePeer_of E m (get_peer m (from' msg))
          else if action pl = ''sdp'' then
            (if verbose m \<and> pl_sdp pl = None then (m, [], Thrown TypeError)
             else
               (case updateSessionDescription_of E (verbose m) (get_peer m (from' msg)) (pl_sdp pl) of
                  (po, ev, pr) \<Rightarrow>
                    (m\<lparr>peers := store_peer (from' msg) po (peers m),
                       prototype_ignoreOffer :=
                         prototype_ignoreOffer m \<or> assigns_prototype (get_peer m (from' msg)) (pl_sdp pl)\<rparr>,
                     (if verbose m then
                        [ConsoleLog (''Received '' @ type (the (pl_sdp pl)) @ '' from '' @ from' msg)]
                      else []) @ ev,
                     outcome_of pr)))
          else if action pl = ''ice'' then
            (case updateIceCandidate_of E (get_peer m (from' msg)) (ice pl) of
               (po, ev, pr) \<Rightarrow> (m\<lparr>peers := store_peer (from' msg) po (peers m)\<rparr>, ev, outcome_of pr))
          else
            (m, if verbose m then [ConsoleLog (''Received un an unkown action '' @ action pl)] else [],
             Returned))"

subsection \<open>signalingDisconnectHandler (lines 72-76)\<close>

text \<open>
  \<^verbatim>\<open>for (const peerId in this.peers) { this.peers[peerId].remove(); }\<close>

  \<^verbatim>\<open>for-in\<close> visits the own keys that are array indices (canonical decimal strings below
  \<open>2^32 - 1\<close>) in ascending order, then the other own keys in insertion order, then the
  enumerable properties of the prototype that no own key shadows; a key deleted before its
  turn is not visited. \<^verbatim>\<open>Object.prototype\<close> has no enumerable property but the \<^verbatim>\<open>ignoreOffer\<close>
  that line 165 may have left there.
\<close>

definition is_digit :: "char \<Rightarrow> bool" where
  "is_digit c \<longleftrightarrow> (48::nat) \<le> of_char c \<and> (of_char c :: nat) \<le> 57"

definition nat_of_digits :: "string \<Rightarrow> nat" where
  "nat_of_digits s = foldl (\<lambda>n c. 10 * n + (of_char c - 48)) 0 s"

definition is_array_index :: "string \<Rightarrow> bool" where
  "is_array_index s \<longleftrightarrow>
     s \<noteq> [] \<and> list_all is_digit s \<and> (length s = 1 \<or> hd s \<noteq> CHR ''0'')
     \<and> nat_of_digits s < 2 ^ 32 - 1"

definition own_keys :: "(string \<times> 'a) list \<Rightarrow> string list" where
  "own_keys ps =
     sort_key nat_of_digits (filter is_array_index (map fst ps))
     @ filter (\<lambda>k. \<not> is_array_index k) (map fst ps)"

definition for_in_keys :: "'c manager \<Rightarrow> string list" where
  "for_in_keys m =
     own_keys (peers m)
     @ (if prototype_ignoreOffer m \<and> ''ignoreOffer'' \<notin> set (map fst (peers m)) then [''ignoreOffer'']
        else [])"

text \<open>
  The loop over a list of keys still to visit. The body calls the \<^verbatim>\<open>remove\<close> closure of the
  peer object found under the key; that closure was made by \<^verbatim>\<open>addPeer\<close> for the object's own
  \<^verbatim>\<open>peerId\<close>. A value that is not a session has no \<^verbatim>\<open>remove\<close>: calling it throws a TypeError,
  which ends the loop.
\<close>

fun for_in_remove ::
  "'c engine \<Rightarrow> 'c manager \<Rightarrow> string list \<Rightarrow> 'c manager \<times> event list \<times> outcome" where
  "for_in_remove E m [] = (m, [], Returned)"
| "for_in_remove E m (k # ks) =
     (case get_peer m k of
        Undefined \<Rightarrow> for_in_remove E m ks
      | PeerObject p \<Rightarrow>
          (case remove E m (peerId p) of
             (m1, ev1, Returned) \<Rightarrow>
               (case for_in_remove E m1 ks of (m2, ev2, out) \<Rightarrow> (m2, ev1 @ ev2, out))
           | (m1, ev1, out) \<Rightarrow> (m1, ev1, out))
      | BuiltinFunction \<Rightarrow> (m, [], Thrown TypeError)
      | ObjectPrototype \<Rightarrow> (m, [], Thrown TypeError)
      | FalseValue \<Rightarrow> (m, [], Thrown TypeError))"

definition signalingDisconnectHandler ::
  "'c engine \<Rightarrow> 'c manager \<Rightarrow> 'c manager \<times> event list \<times> outcome" where
  "signalingDisconnectHandler E m = for_in_remove E m (for_in_keys m)"

subsection \<open>The states the manager can reach\<close>

text \<open>
  The constructor leaves \<^verbatim>\<open>this.peers\<close> empty; from there the state changes by relay messages,
  the relay's disconnect event, the engine's callbacks on a registered session, and calls of
  \<^verbatim>\<open>addPeer\<close> and of a peer's \<^verbatim>\<open>remove\<close>.
\<close>

definition iceconnectionstatechange :: "'c engine \<Rightarrow> 'c manager \<Rightarrow> string \<Rightarrow> 'c manager \<times> event list" where
  "iceconnectionstatechange E m pid =
     (case map_of (peers m) pid of
        None \<Rightarrow> (m, [])
      | Some p \<Rightarrow>
          (case oniceconnectionstatechange E p of
             (p', ev) \<Rightarrow> (m\<lparr>peers := store_peer pid (Some p') (peers m)\<rparr>, ev)))"

inductive reachable :: "'c engine \<Rightarrow> 'c manager \<Rightarrow> bool" for E :: "'c engine" where
  constructed: "peers m = [] \<Longrightarrow> reachable E m"
| message: "reachable E m \<Longrightarrow> reachable E (fst (signalingMessageHandler E m msg))"
| disconnect: "reachable E m \<Longrightarrow> reachable E (fst (signalingDisconnectHandler E m))"
| added: "reachable E m \<Longrightarrow> reachable E (fst (addPeer E m pid ptype pol))"
| removed: "reachable E m \<Longrightarrow> reachable E (fst (remove E m pid))"
| negotiation: "reachable E m \<Longrightarrow> reachable E (fst (negotiationneeded E m pid))"
| ice_state: "reachable E m \<Longrightarrow> reachable E (fst (iceconnectionstatechange E m pid))"

subsection \<open>Two engines to run the model on\<close>

text \<open>
  A small engine that follows the signaling states of an offer/answer exchange and accepts
  every call, and one whose promises all reject. They instantiate the theorems at concrete
  inputs; no theorem depends on them.
\<close>

record conn =
  signaling :: string
  local_desc :: "description option"
  remote_desc :: "description option"
  closed :: bool

definition next_signaling :: "bool \<Rightarrow> description \<Rightarrow> string" where
  "next_signaling is_local d =
     (if type d = ''offer'' then (if is_local then ''have-local-offer'' else ''have-remote-offer'')
      else ''stable'')"

definition accepting_engine :: "conn engine" where
  "accepting_engine =
     \<lparr>newRTCPeerConnection = (\<lambda>_. \<lparr>signaling = ''stable'', local_desc = None, remote_desc = None, closed = False\<rparr>),
      signalingState = signaling,
      iceConnectionState = (\<lambda>_. ''new''),
      localDescription = local_desc,
      createOffer = (\<lambda>c. (Inr \<lparr>type = ''offer'', sdp = Some ''v=0 o=local''\<rparr>, c)),
      createAnswer = (\<lambda>c. (Inr \<lparr>type = ''answer'', sdp = Some ''v=0 a=local''\<rparr>, c)),
      setLocalDescription = (\<lambda>d c.
        (None, if type d = ''rollback'' then c\<lparr>signaling := ''stable'', local_desc := None\<rparr>
               else c\<lparr>signaling := next_signaling True d, local_desc := Some d\<rparr>)),
      setRemoteDescription = (\<lambda>d c. (None, c\<lparr>signaling := next_signaling False d, remote_desc := Some d\<rparr>)),
      addIceCandidate = (\<lambda>_ c. (None, c)),
      restartIce = (\<lambda>c. c),
      createDataChannel = (\<lambda>_ c. c),
      dataChannelClose = (\<lambda>c. c),
      close = (\<lambda>c. c\<lparr>signaling := ''closed'', closed := True\<rparr>)\<rparr>"

definition rejecting_engine :: "conn engine" where
  "rejecting_engine =
     accepting_engine
       \<lparr>createOffer := (\<lambda>c. (Inl (DOMException ''OperationError''), c)),
        createAnswer := (\<lambda>c. (Inl (DOMException ''OperationError''), c)),
        setLocalDescription := (\<lambda>_ c. (Some (DOMException ''InvalidStateError''), c)),
        setRemoteDescription := (\<lambda>_ c. (Some (DOMException ''InvalidStateError''), c)),
        addIceCandidate := (\<lambda>_ c. (Some (DOMException ''OperationError''), c))\<rparr>"

definition idle_conn :: conn where
  "idle_conn = \<lparr>signaling = ''stable'', local_desc = None, remote_desc = None, closed = False\<rparr>"

definition offering_conn :: conn where
  "offering_conn =
     \<lparr>signaling = ''have-local-offer'',
      local_desc = Some \<lparr>type = ''offer'', sdp = Some ''v=0 o=local''\<rparr>,
      remote_desc = None, closed = False\<rparr>"

definition sample_peer :: "string \<Rightarrow> bool option \<Rightarrow> conn \<Rightarrow> conn peer" where
  "sample_peer pid pol c =
     \<lparr>peerId = pid, peerType = ''robot'', polite = pol, rtcPeerConnection = c, dataChannel = None,
      makingOffer = False, ignoreOffer = False, isSettingRemoteAnswerPending = False\<rparr>"

definition remote_offer :: description where
  "remote_offer = \<lparr>type = ''offer'', sdp = Some ''v=0 o=remote''\<rparr>"

definition remote_answer :: description where
  "remote_answer = \<lparr>type = ''answer'', sdp = Some ''v=0 a=remote''\<rparr>"

definition empty_manager :: "conn manager" where
  "empty_manager =
     \<lparr>ourPeerId = ''me'', ourPeerType = ''admin'', peers = [],
      options = \<lparr>enableDataChannel = False, dataChannelHandler = None\<rparr>, verbose = False,
      prototype_ignoreOffer = False\<rparr>"





section \<open>Properties\<close>

subsection \<open>What a handled description leaves of the peer, and what it emits\<close>

text \<open>
  Whatever the engine answers, \<^verbatim>\<open>updateSessionDescription\<close> changes two fields of the peer
  only: \<^verbatim>\<open>ignoreOffer\<close>, to the value line 165 computes, and the connection.
\<close>

lemma apply_remote_peer:
  "\<exists>c. fst (apply_remote E col p d) = p\<lparr>rtcPeerConnection := c\<rparr>"
  by (auto simp: apply_remote_def split: prod.splits option.splits)

lemma send_answer_peer:
  "\<exists>c. fst (send_answer E vb p) = p\<lparr>rtcPeerConnection := c\<rparr>"
  by (auto simp: send_answer_def split: prod.splits option.splits sum.splits)

lemma sdp_try_peer:
  "\<exists>c. fst (sdp_try E vb p d) =
        p\<lparr>ignoreOffer := \<not> truthy (polite p) \<and> offerCollision E p d, rtcPeerConnection := c\<rparr>"
proof (cases "\<not> truthy (polite p) \<and> offerCollision E p d")
  case True
  then have "fst (sdp_try E vb p d) = p\<lparr>ignoreOffer := True\<rparr>"
    by (simp add: sdp_try_def)
  then have "fst (sdp_try E vb p d) = p\<lparr>ignoreOffer := True, rtcPeerConnection := rtcPeerConnection p\<rparr>"
    by simp
  with True show ?thesis by (intro exI [of _ "rtcPeerConnection p"]) simp
next
  case False
  define p1 where "p1 = p\<lparr>ignoreOffer := False\<rparr>"
  obtain p2 ev2 r2 where ar: "apply_remote E (offerCollision E p d) p1 d = (p2, ev2, r2)"
    by (cases "apply_remote E (offerCollision E p d) p1 d") auto
  obtain c2 where p2: "p2 = p1\<lparr>rtcPeerConnection := c2\<rparr>"
    using apply_remote_peer [of E "offerCollision E p d" p1 d] ar by auto
  obtain p3 ev3 r3 where sa: "send_answer E vb p2 = (p3, ev3, r3)"
    by (cases "send_answer E vb p2") auto
  obtain c3 where p3: "p3 = p2\<lparr>rtcPeerConnection := c3\<rparr>"
    using send_answer_peer [of E vb p2] sa by auto
  have "fst (sdp_try E vb p d) = p2 \<or> fst (sdp_try E vb p d) = p3"
    using False ar sa by (auto simp: sdp_try_def Let_def p1_def split: option.splits)
  then show ?thesis
    using False p2 p3 by (auto simp: p1_def)
qed

lemma updateSessionDescription_shape:
  "\<exists>c ev. updateSessionDescription E vb (Some p) (Some d) =
     (Some (p\<lparr>ignoreOffer := \<not> truthy (polite p) \<and> offerCollision E p d, rtcPeerConnection := c\<rparr>),
      ev, Resolved)"
proof -
  obtain c where "fst (sdp_try E vb p d) =
      p\<lparr>ignoreOffer := \<not> truthy (polite p) \<and> offerCollision E p d, rtcPeerConnection := c\<rparr>"
    using sdp_try_peer [of E vb p d] by auto
  then show ?thesis
    by (cases "sdp_try E vb p d") (auto simp: updateSessionDescription_def split: option.splits)
qed

lemma apply_remote_collision_first:
  "\<exists>ev. fst (snd (apply_remote E True p d)) = Engine (peerId p) (SetLocalDescription rollback) # ev"
  by (auto simp: apply_remote_def split: prod.splits option.splits)

lemma sdp_try_events:
  "\<not> (\<not> truthy (polite p) \<and> offerCollision E p d) \<Longrightarrow>
   \<exists>ev3. fst (snd (sdp_try E vb p d)) =
     fst (snd (apply_remote E (offerCollision E p d) (p\<lparr>ignoreOffer := False\<rparr>) d)) @ ev3"
  by (cases "apply_remote E (offerCollision E p d) (p\<lparr>ignoreOffer := False\<rparr>) d")
     (auto simp: sdp_try_def Let_def split: prod.splits option.splits)

lemma updateSessionDescription_events:
  "\<exists>ev'. fst (snd (updateSessionDescription E vb (Some p) (Some d))) = fst (snd (sdp_try E vb p d)) @ ev'"
  by (cases "sdp_try E vb p d") (auto simp: updateSessionDescription_def split: option.splits)

subsection \<open>Collision handling\<close>

text \<open>
  Claim C1. For a peer receiving a description: \<open>offerCollision\<close> holds exactly when the
  description's type is \<^verbatim>\<open>"offer"\<close> and \<^verbatim>\<open>makingOffer\<close> is true or the signaling state is not
  \<^verbatim>\<open>"stable"\<close>; after the call \<^verbatim>\<open>ignoreOffer\<close> is \<open>\<not> polite \<and> offerCollision\<close>; and when that is true
  the handler returns at once: the peer is unchanged but for \<^verbatim>\<open>ignoreOffer\<close>, the only event is
  the verbose console line (none when \<^verbatim>\<open>verbose\<close> is off), so no description is set, nothing is
  sent, nothing reaches \<^verbatim>\<open>console.error\<close>, and the promise resolves.
\<close>

theorem ignored_offer_returns_at_once:
  "(offerCollision E p d \<longleftrightarrow>
      type d = ''offer'' \<and> (makingOffer p \<or> signalingState E (rtcPeerConnection p) \<noteq> ''stable''))
   \<and> (\<exists>p' ev. updateSessionDescription E vb (Some p) (Some d) = (Some p', ev, Resolved)
        \<and> ignoreOffer p' = (\<not> truthy (polite p) \<and> offerCollision E p d))
   \<and> (\<not> truthy (polite p) \<and> offerCollision E p d \<longrightarrow>
        updateSessionDescription E vb (Some p) (Some d) =
          (Some (p\<lparr>ignoreOffer := True\<rparr>),
           if vb then [ConsoleLog ''Peer offer was ignore because we are impolite''] else [],
           Resolved))"
proof (intro conjI)
  show "offerCollision E p d \<longleftrightarrow>
      type d = ''offer'' \<and> (makingOffer p \<or> signalingState E (rtcPeerConnection p) \<noteq> ''stable'')"
    by (simp add: offerCollision_def)
  show "\<exists>p' ev. updateSessionDescription E vb (Some p) (Some d) = (Some p', ev, Resolved)
        \<and> ignoreOffer p' = (\<not> truthy (polite p) \<and> offerCollision E p d)"
    using updateSessionDescription_shape [of E vb p d] by auto
  show "\<not> truthy (polite p) \<and> offerCollision E p d \<longrightarrow>
        updateSessionDescription E vb (Some p) (Some d) =
          (Some (p\<lparr>ignoreOffer := True\<rparr>),
           if vb then [ConsoleLog ''Peer offer was ignore because we are impolite''] else [],
           Resolved)"
    by (simp add: updateSessionDescription_def sdp_try_def)
qed


text \<open>An impolite peer with its own offer in flight (\<^verbatim>\<open>have-local-offer\<close>) receives an offer.\<close>

theorem ignored_offer_returns_at_once_witness:
  "\<not> truthy (polite (sample_peer ''b'' (Some False) offering_conn))
   \<and> offerCollision accepting_engine (sample_peer ''b'' (Some False) offering_conn) remote_offer
   \<and> updateSessionDescription accepting_engine False
         (Some (sample_peer ''b'' (Some False) offering_conn)) (Some remote_offer) =
       (Some ((sample_peer ''b'' (Some False) offering_conn)\<lparr>ignoreOffer := True\<rparr>), [], Resolved)"
  using ignored_offer_returns_at_once
    [of accepting_engine "sample_peer ''b'' (Some False) offering_conn" remote_offer False]
  by (simp add: truthy_def offerCollision_def sample_peer_def offering_conn_def remote_offer_def
      accepting_engine_def)

text \<open>
  Claim C2. A polite peer receives an offer while a collision holds. The first thing the
  handler does is \<^verbatim>\<open>setLocalDescription({type: "rollback"})\<close>. If that rejects, the error goes to
  \<^verbatim>\<open>console.error\<close> and nothing else is done. If the rollback, the remote description, the
  answer and its application all succeed, the events are, in this order: the rollback, the
  incoming description as remote description, \<^verbatim>\<open>createAnswer\<close>, the answer as local
  description, and one \<^verbatim>\<open>"sdp"\<close> message to the peer carrying the connection's local description.
\<close>

theorem polite_collision_rolls_back_then_answers:
  assumes pol: "truthy (polite p)"
    and offer: "type d = ''offer''"
    and coll: "makingOffer p \<or> signalingState E (rtcPeerConnection p) \<noteq> ''stable''"
  shows "(\<exists>p' ev. updateSessionDescription E vb (Some p) (Some d) =
            (Some p', Engine (peerId p) (SetLocalDescription rollback) # ev, Resolved))
    \<and> (\<forall>e c1. setLocalDescription E rollback (rtcPeerConnection p) = (Some e, c1) \<longrightarrow>
          updateSessionDescription E vb (Some p) (Some d) =
            (Some (p\<lparr>ignoreOffer := False, rtcPeerConnection := c1\<rparr>),
             [Engine (peerId p) (SetLocalDescription rollback), ConsoleError e], Resolved))
    \<and> (\<forall>c1 c2 answer c3 c4.
          setLocalDescription E rollback (rtcPeerConnection p) = (None, c1) \<longrightarrow>
          setRemoteDescription E d c1 = (None, c2) \<longrightarrow>
          createAnswer E c2 = (Inr answer, c3) \<longrightarrow>
          setLocalDescription E answer c3 = (None, c4) \<longrightarrow>
          updateSessionDescription E vb (Some p) (Some d) =
            (Some (p\<lparr>ignoreOffer := False, rtcPeerConnection := c4\<rparr>),
             [Engine (peerId p) (SetLocalDescription rollback),
              Engine (peerId p) (SetRemoteDescription d),
              Engine (peerId p) CreateAnswer,
              Engine (peerId p) (SetLocalDescription answer)]
             @ (if vb then [ConsoleLog (''Sending answer to '' @ peerId p)] else [])
             @ [SendTo (peerId p) (OutSdp (localDescription E c4))],
             Resolved))"
proof -
  have oc: "offerCollision E p d"
    using offer coll by (simp add: offerCollision_def)
  have first: "\<exists>p' ev. updateSessionDescription E vb (Some p) (Some d) =
            (Some p', Engine (peerId p) (SetLocalDescription rollback) # ev, Resolved)"
  proof -
    obtain ev2 where e2: "fst (snd (apply_remote E True (p\<lparr>ignoreOffer := False\<rparr>) d)) =
        Engine (peerId p) (SetLocalDescription rollback) # ev2"
      using apply_remote_collision_first [of E "p\<lparr>ignoreOffer := False\<rparr>" d] by auto
    obtain ev3 where e3: "fst (snd (sdp_try E vb p d)) =
        fst (snd (apply_remote E True (p\<lparr>ignoreOffer := False\<rparr>) d)) @ ev3"
      using sdp_try_events [of p E d vb] pol oc by auto
    obtain ev4 where e4: "fst (snd (updateSessionDescription E vb (Some p) (Some d))) =
        fst (snd (sdp_try E vb p d)) @ ev4"
      using updateSessionDescription_events [of E vb p d] by auto
    obtain c ev where u: "updateSessionDescription E vb (Some p) (Some d) =
       (Some (p\<lparr>ignoreOffer := \<not> truthy (polite p) \<and> offerCollision E p d, rtcPeerConnection := c\<rparr>),
        ev, Resolved)"
      using updateSessionDescription_shape [of E vb p d] by auto
    have "ev = Engine (peerId p) (SetLocalDescription rollback) # (ev2 @ ev3 @ ev4)"
      using e2 e3 e4 u by simp
    with u show ?thesis by blast
  qed
  have failed: "\<forall>e c1. setLocalDescription E rollback (rtcPeerConnection p) = (Some e, c1) \<longrightarrow>
          updateSessionDescription E vb (Some p) (Some d) =
            (Some (p\<lparr>ignoreOffer := False, rtcPeerConnection := c1\<rparr>),
             [Engine (peerId p) (SetLocalDescription rollback), ConsoleError e], Resolved)"
    using pol oc offer
    by (simp add: updateSessionDescription_def sdp_try_def apply_remote_def)
  have full: "\<forall>c1 c2 answer c3 c4.
          setLocalDescription E rollback (rtcPeerConnection p) = (None, c1) \<longrightarrow>
          setRemoteDescription E d c1 = (None, c2) \<longrightarrow>
          createAnswer E c2 = (Inr answer, c3) \<longrightarrow>
          setLocalDescription E answer c3 = (None, c4) \<longrightarrow>
          updateSessionDescription E vb (Some p) (Some d) =
            (Some (p\<lparr>ignoreOffer := False, rtcPeerConnection := c4\<rparr>),
             [Engine (peerId p) (SetLocalDescription rollback),
              Engine (peerId p) (SetRemoteDescription d),
              Engine (peerId p) CreateAnswer,
              Engine (peerId p) (SetLocalDescription answer)]
             @ (if vb then [ConsoleLog (''Sending answer to '' @ peerId p)] else [])
             @ [SendTo (peerId p) (OutSdp (localDescription E c4))],
             Resolved)"
    using pol oc offer
    by (simp add: updateSessionDescription_def sdp_try_def apply_remote_def send_answer_def)
  from first failed full show ?thesis by blast
qed


text \<open>A polite peer in \<^verbatim>\<open>have-local-offer\<close> receives an offer, on the engine that accepts every call.\<close>

theorem polite_collision_rolls_back_then_answers_witness:
  "truthy (polite (sample_peer ''a'' (Some True) offering_conn))
   \<and> type remote_offer = ''offer''
   \<and> signalingState accepting_engine (rtcPeerConnection (sample_peer ''a'' (Some True) offering_conn))
       = ''have-local-offer''
   \<and> updateSessionDescription accepting_engine False
         (Some (sample_peer ''a'' (Some True) offering_conn)) (Some remote_offer) =
       (Some (sample_peer ''a'' (Some True)
          \<lparr>signaling = ''stable'', local_desc = Some \<lparr>type = ''answer'', sdp = Some ''v=0 a=local''\<rparr>,
           remote_desc = Some remote_offer, closed = False\<rparr>),
        [Engine ''a'' (SetLocalDescription rollback),
         Engine ''a'' (SetRemoteDescription remote_offer),
         Engine ''a'' CreateAnswer,
         Engine ''a'' (SetLocalDescription \<lparr>type = ''answer'', sdp = Some ''v=0 a=local''\<rparr>),
         SendTo ''a'' (OutSdp (Some \<lparr>type = ''answer'', sdp = Some ''v=0 a=local''\<rparr>))],
        Resolved)"
  using polite_collision_rolls_back_then_answers
    [of "sample_peer ''a'' (Some True) offering_conn" remote_offer accepting_engine False]
  by (simp add: truthy_def sample_peer_def offering_conn_def remote_offer_def accepting_engine_def
      next_signaling_def rollback_def)


text \<open>
  Claim C10. \<^verbatim>\<open>ignoreOffer\<close> is recomputed by every handled description: when
  \<open>\<not> polite \<and> offerCollision\<close> is false, the peer's \<^verbatim>\<open>ignoreOffer\<close> is false after
  \<^verbatim>\<open>updateSessionDescription\<close>, whatever it was before and whatever the engine answers; from then
  on a candidate the engine rejects is passed to \<^verbatim>\<open>console.log\<close> again.
\<close>

theorem ignoreOffer_is_recomputed:
  assumes "\<not> (\<not> truthy (polite p) \<and> offerCollision E p d)"
  shows "\<exists>p' ev. updateSessionDescription E vb (Some p) (Some d) = (Some p', ev, Resolved)
           \<and> \<not> ignoreOffer p'
           \<and> (\<forall>candidate e c1. truthy_ice candidate \<longrightarrow>
                 addIceCandidate E candidate (rtcPeerConnection p') = (Some e, c1) \<longrightarrow>
                 fst (snd (updateIceCandidate E (Some p') candidate)) =
                   [Engine (peerId p) (AddIceCandidate candidate), ConsoleLogError e])"
proof -
  obtain c ev where u: "updateSessionDescription E vb (Some p) (Some d) =
     (Some (p\<lparr>ignoreOffer := \<not> truthy (polite p) \<and> offerCollision E p d, rtcPeerConnection := c\<rparr>),
      ev, Resolved)"
    using updateSessionDescription_shape [of E vb p d] by auto
  define p' where "p' = p\<lparr>ignoreOffer := False, rtcPeerConnection := c\<rparr>"
  have "updateSessionDescription E vb (Some p) (Some d) = (Some p', ev, Resolved)"
    using u assms by (simp add: p'_def)
  moreover have "\<not> ignoreOffer p'"
    by (simp add: p'_def)
  moreover have "\<forall>candidate e c1. truthy_ice candidate \<longrightarrow>
                 addIceCandidate E candidate (rtcPeerConnection p') = (Some e, c1) \<longrightarrow>
                 fst (snd (updateIceCandidate E (Some p') candidate)) =
                   [Engine (peerId p) (AddIceCandidate candidate), ConsoleLogError e]"
    by (simp add: updateIceCandidate_def p'_def)
  ultimately show ?thesis by blast
qed

text \<open>The two cases the claim names: an answer, and an offer that meets no collision.\<close>

lemma answer_is_no_collision: "type d \<noteq> ''offer'' \<Longrightarrow> \<not> offerCollision E p d"
  by (simp add: offerCollision_def)

lemma idle_offer_is_no_collision:
  "\<not> makingOffer p \<Longrightarrow> signalingState E (rtcPeerConnection p) = ''stable'' \<Longrightarrow> \<not> offerCollision E p d"
  by (simp add: offerCollision_def)

text \<open>
  An impolite peer whose \<^verbatim>\<open>ignoreOffer\<close> is set receives the answer to its own offer: the flag
  is cleared.
\<close>

theorem ignoreOffer_is_recomputed_witness:
  "\<not> offerCollision accepting_engine
        ((sample_peer ''b'' (Some False) offering_conn)\<lparr>ignoreOffer := True\<rparr>) remote_answer
   \<and> (\<exists>p' ev. updateSessionDescription accepting_engine False
          (Some ((sample_peer ''b'' (Some False) offering_conn)\<lparr>ignoreOffer := True\<rparr>))
          (Some remote_answer) = (Some p', ev, Resolved)
        \<and> \<not> ignoreOffer p')"
  using ignoreOffer_is_recomputed
    [of "(sample_peer ''b'' (Some False) offering_conn)\<lparr>ignoreOffer := True\<rparr>"
        accepting_engine remote_answer False]
  by (simp add: offerCollision_def remote_answer_def) blast

subsection \<open>Remote ICE candidates\<close>

lemma falsy_ice_values:
  "\<not> truthy_ice candidate \<longleftrightarrow> candidate = IceUndefined \<or> candidate = IceNull \<or> candidate = IceString []"
  by (cases candidate) auto

lemma update_stored_peer: "map_of ps k = Some p \<Longrightarrow> store_peer k (Some p) ps = ps"
  by (simp add: store_peer_def update_triv)

lemma get_peer_own: "map_of (peers m) k = Some p \<Longrightarrow> get_peer m k = PeerObject p"
  by (simp add: get_peer_def)

lemma get_peer_session: "get_peer m k = PeerObject p \<longleftrightarrow> map_of (peers m) k = Some p"
  by (auto simp: get_peer_def split: option.splits)

text \<open>
  Claim C5. A candidate that is the end-of-candidates terminator (\<^verbatim>\<open>null\<close>, absent, or the
  empty string: the values \<^verbatim>\<open>candidate && ...\<close> takes for false) delivered to a peer: the promise
  resolves, there is no event at all, so \<^verbatim>\<open>addIceCandidate\<close> is not called, and the peer is
  unchanged. Through \<^verbatim>\<open>signalingMessageHandler\<close>, the handler returns and the manager is
  unchanged.
\<close>

theorem terminator_candidate_is_skipped:
  assumes "\<not> truthy_ice candidate"
  shows "updateIceCandidate E (Some p) candidate = (Some p, [], Resolved)
    \<and> (\<forall>m msg pl. map_of (peers m) (from' msg) = Some p \<longrightarrow> payload msg = Some pl \<longrightarrow>
           action pl = ''ice'' \<longrightarrow> ice pl = candidate \<longrightarrow>
           signalingMessageHandler E m msg = (m, [], Returned))"
  using assms
  by (simp add: updateIceCandidate_def updateIceCandidate_of_def signalingMessageHandler_def
      outcome_of_def update_stored_peer get_peer_own)

theorem terminator_candidate_is_skipped_witness:
  "\<not> truthy_ice IceNull
   \<and> updateIceCandidate rejecting_engine (Some (sample_peer ''a'' (Some True) idle_conn)) IceNull =
       (Some (sample_peer ''a'' (Some True) idle_conn), [], Resolved)
   \<and> signalingMessageHandler rejecting_engine
        (empty_manager\<lparr>peers := [(''a'', sample_peer ''a'' (Some True) idle_conn)]\<rparr>)
        \<lparr>from' = ''a'',
         payload = Some \<lparr>action = ''ice'', connections = None, bePolite = None, pl_sdp = None,
                         ice = IceNull\<rparr>\<rparr> =
       (empty_manager\<lparr>peers := [(''a'', sample_peer ''a'' (Some True) idle_conn)]\<rparr>, [], Returned)"
  using terminator_candidate_is_skipped
    [of IceNull rejecting_engine "sample_peer ''a'' (Some True) idle_conn"]
  by simp

text \<open>
  Claim C6. A truthy candidate that the engine rejects with \<open>e\<close>: the promise still resolves,
  the error is passed to \<^verbatim>\<open>console.log\<close> exactly when \<^verbatim>\<open>ignoreOffer\<close> is false and is dropped when
  it is true, nothing reaches \<^verbatim>\<open>console.error\<close>, and the peer keeps every field but the
  connection state the engine returned. Through \<^verbatim>\<open>signalingMessageHandler\<close>, the handler
  returns and the peer stays registered.
\<close>

theorem rejected_candidate_is_contained:
  assumes "truthy_ice candidate"
    and "addIceCandidate E candidate (rtcPeerConnection p) = (Some e, c1)"
  shows "updateIceCandidate E (Some p) candidate =
           (Some (p\<lparr>rtcPeerConnection := c1\<rparr>),
            Engine (peerId p) (AddIceCandidate candidate) # (if ignoreOffer p then [] else [ConsoleLogError e]),
            Resolved)
    \<and> (ConsoleLogError e \<in> set (fst (snd (updateIceCandidate E (Some p) candidate))) \<longleftrightarrow> \<not> ignoreOffer p)
    \<and> (\<forall>e'. ConsoleError e' \<notin> set (fst (snd (updateIceCandidate E (Some p) candidate))))
    \<and> (\<forall>m msg pl. map_of (peers m) (from' msg) = Some p \<longrightarrow> payload msg = Some pl \<longrightarrow>
           action pl = ''ice'' \<longrightarrow> ice pl = candidate \<longrightarrow>
           (\<exists>m' ev. signalingMessageHandler E m msg = (m', ev, Returned)
              \<and> map_of (peers m') (from' msg) = Some (p\<lparr>rtcPeerConnection := c1\<rparr>)))"
  using assms
  by (simp add: updateIceCandidate_def updateIceCandidate_of_def signalingMessageHandler_def
      outcome_of_def store_peer_def update_conv' get_peer_own)

theorem rejected_candidate_is_contained_witness:
  "truthy_ice (IceCandidateInit ''candidate:1 1 udp 1 10.0.0.1 9 typ host'')
   \<and> updateIceCandidate rejecting_engine
        (Some ((sample_peer ''b'' (Some False) offering_conn)\<lparr>ignoreOffer := True\<rparr>))
        (IceCandidateInit ''candidate:1 1 udp 1 10.0.0.1 9 typ host'') =
       (Some ((sample_peer ''b'' (Some False) offering_conn)\<lparr>ignoreOffer := True\<rparr>),
        [Engine ''b'' (AddIceCandidate (IceCandidateInit ''candidate:1 1 udp 1 10.0.0.1 9 typ host''))],
        Resolved)
   \<and> updateIceCandidate rejecting_engine
        (Some (sample_peer ''b'' (Some False) offering_conn))
        (IceCandidateInit ''candidate:1 1 udp 1 10.0.0.1 9 typ host'') =
       (Some (sample_peer ''b'' (Some False) offering_conn),
        [Engine ''b'' (AddIceCandidate (IceCandidateInit ''candidate:1 1 udp 1 10.0.0.1 9 typ host'')),
         ConsoleLogError (DOMException ''OperationError'')],
        Resolved)"
  using rejected_candidate_is_contained
    [of "IceCandidateInit ''candidate:1 1 udp 1 10.0.0.1 9 typ host''" rejecting_engine
        "(sample_peer ''b'' (Some False) offering_conn)\<lparr>ignoreOffer := True\<rparr>"
        "DOMException ''OperationError''" offering_conn]
    rejected_candidate_is_contained
    [of "IceCandidateInit ''candidate:1 1 udp 1 10.0.0.1 9 typ host''" rejecting_engine
        "sample_peer ''b'' (Some False) offering_conn"
        "DOMException ''OperationError''" offering_conn]
  by (simp add: rejecting_engine_def accepting_engine_def sample_peer_def)


subsection \<open>Dispatch\<close>

text \<open>
  Claim C9. An \<^verbatim>\<open>"open"\<close> message whose payload has no \<^verbatim>\<open>connections\<close>: \<^verbatim>\<open>connections.forEach\<close>
  throws a TypeError out of \<^verbatim>\<open>signalingMessageHandler\<close>; the message is not ignored. This holds
  for every such message, in every state of the manager.
\<close>

theorem open_without_connections_throws:
  assumes "payload msg = Some pl" and "action pl = ''open''" and "connections pl = None"
  shows "signalingMessageHandler E m msg = (m, [], Thrown TypeError)"
  using assms by (simp add: signalingMessageHandler_def)

theorem open_without_connections_throws_witness:
  "signalingMessageHandler accepting_engine empty_manager
     \<lparr>from' = ''relay'',
      payload = Some \<lparr>action = ''open'', connections = None, bePolite = Some True, pl_sdp = None,
                      ice = IceUndefined\<rparr>\<rparr> =
   (empty_manager, [], Thrown TypeError)"
  using open_without_connections_throws
    [of "\<lparr>from' = ''relay'',
          payload = Some \<lparr>action = ''open'', connections = None, bePolite = Some True, pl_sdp = None,
                          ice = IceUndefined\<rparr>\<rparr>"
        "\<lparr>action = ''open'', connections = None, bePolite = Some True, pl_sdp = None,
          ice = IceUndefined\<rparr>" accepting_engine empty_manager]
  by simp

text \<open>
  Messages from a sender for which \<^verbatim>\<open>this.peers[from]\<close> is \<^verbatim>\<open>undefined\<close>. \<^verbatim>\<open>"close"\<close> is a no-op
  (the \<^verbatim>\<open>if (peer)\<close> of \<^verbatim>\<open>removePeer\<close>); \<^verbatim>\<open>"sdp"\<close> returns and calls no engine, its TypeError
  caught and passed to \<^verbatim>\<open>console.error\<close>; \<^verbatim>\<open>"ice"\<close> ends in an unhandled rejection.
\<close>

lemma proto_is_inherited: "''__proto__'' \<in> set object_prototype_names"
  by (simp add: object_prototype_names_def)

lemma get_peer_undefined:
  "get_peer m k = Undefined \<longleftrightarrow>
     map_of (peers m) k = None \<and> k \<notin> set object_prototype_names
     \<and> \<not> (prototype_ignoreOffer m \<and> k = ''ignoreOffer'')"
  using proto_is_inherited by (cases "map_of (peers m) k") (auto simp: get_peer_def)

lemma close_from_unknown_sender:
  "get_peer m (from' msg) = Undefined \<Longrightarrow> payload msg = Some pl \<Longrightarrow> action pl = ''close'' \<Longrightarrow>
   signalingMessageHandler E m msg = (m, [], Returned)"
  by (simp add: signalingMessageHandler_def removePeer_of_def removePeer_def)

lemma sdp_from_unknown_sender:
  "get_peer m (from' msg) = Undefined \<Longrightarrow> payload msg = Some pl \<Longrightarrow> action pl = ''sdp'' \<Longrightarrow>
   \<not> verbose m \<Longrightarrow>
   signalingMessageHandler E m msg = (m, [ConsoleError TypeError], Returned)"
  by (simp add: signalingMessageHandler_def updateSessionDescription_of_def
      updateSessionDescription_def assigns_prototype_def store_peer_def outcome_of_def)

lemma ice_from_unknown_sender:
  "get_peer m (from' msg) = Undefined \<Longrightarrow> payload msg = Some pl \<Longrightarrow> action pl = ''ice'' \<Longrightarrow>
   signalingMessageHandler E m msg = (m, [], UnhandledRejection TypeError)"
  by (simp add: signalingMessageHandler_def updateIceCandidate_of_def updateIceCandidate_def
      store_peer_def outcome_of_def)

text \<open>
  Messages from a sender whose id is an inherited name, so that \<^verbatim>\<open>this.peers[from]\<close> is a
  built-in object: \<^verbatim>\<open>"close"\<close> throws out of the handler, and \<^verbatim>\<open>"ice"\<close> with a candidate returns
  with the TypeError passed to \<^verbatim>\<open>console.log\<close>.
\<close>

lemma get_peer_inherited:
  "map_of (peers m) k = None \<Longrightarrow> k \<in> set object_prototype_names \<Longrightarrow>
   get_peer m k = BuiltinFunction \<or> get_peer m k = ObjectPrototype"
  by (simp add: get_peer_def)

lemma close_from_inherited_name:
  assumes "map_of (peers m) (from' msg) = None" and "from' msg \<in> set object_prototype_names"
    and "payload msg = Some pl" and "action pl = ''close''"
  shows "signalingMessageHandler E m msg = (m, [], Thrown TypeError)"
  using get_peer_inherited [OF assms(1,2)] assms(3,4)
  by (auto simp: signalingMessageHandler_def removePeer_of_def)

lemma ice_from_inherited_name:
  assumes "map_of (peers m) (from' msg) = None" and "from' msg \<in> set object_prototype_names"
    and "payload msg = Some pl" and "action pl = ''ice''" and "truthy_ice (ice pl)"
  shows "signalingMessageHandler E m msg = (m, [ConsoleLogError TypeError], Returned)"
  using get_peer_inherited [OF assms(1,2)] assms(3,4,5)
  by (auto simp: signalingMessageHandler_def updateIceCandidate_of_def store_peer_def outcome_of_def)

text \<open>
  Claim C3. The claim says that a message from a sender with no session never raises. For
  \<^verbatim>\<open>"ice"\<close> the code does: \<^verbatim>\<open>updateIceCandidate\<close> reads \<^verbatim>\<open>peer.rtcPeerConnection\<close> before its \<^verbatim>\<open>try\<close>
  (line 203), so the TypeError rejects the promise, which line 58 drops. Here a candidate
  arrives from a peer that is not (or no longer) registered.
\<close>

theorem ice_from_unknown_sender_is_unhandled_rejection:
  "signalingMessageHandler accepting_engine empty_manager
     \<lparr>from' = ''ghost'',
      payload = Some \<lparr>action = ''ice'', connections = None, bePolite = None, pl_sdp = None,
                      ice = IceCandidateInit ''candidate:1 1 udp 1 10.0.0.1 9 typ host''\<rparr>\<rparr> =
   (empty_manager, [], UnhandledRejection TypeError)"
  by (simp add: signalingMessageHandler_def updateIceCandidate_of_def updateIceCandidate_def
      store_peer_def outcome_of_def empty_manager_def get_peer_def object_prototype_names_def)


subsection \<open>Adding a peer and offering\<close>


lemma addPeer_fresh:
  assumes "\<not> in_peers m pid"
  shows "\<exists>c dc. fst (addPeer E m pid t pol) =
           m\<lparr>peers := AList.update pid
               ((new_peer_object E pid t pol)\<lparr>rtcPeerConnection := c, dataChannel := dc\<rparr>) (peers m)\<rparr>"
proof (cases "enableDataChannel (options m)")
  case True
  with assms show ?thesis
    by (auto simp: addPeer_def Let_def)
next
  case False
  have "new_peer_object E pid t pol =
        (new_peer_object E pid t pol)\<lparr>rtcPeerConnection := newRTCPeerConnection E config, dataChannel := None\<rparr>"
    by (simp add: new_peer_object_def)
  with False assms show ?thesis
    by (auto simp: addPeer_def Let_def) metis
qed







subsection \<open>Removing peers\<close>

lemma wf_peers_lookup: "wf_peers ps \<Longrightarrow> map_of ps k = Some p \<Longrightarrow> peerId p = k"
  by (auto simp: wf_peers_def list_all_iff dest: map_of_SomeD)

lemma wf_peers_delete:
  assumes "wf_peers ps"
  shows "wf_peers (AList.delete k ps)"
proof -
  have "distinct (map fst (AList.delete k ps))"
    using assms by (simp add: wf_peers_def distinct_delete)
  moreover have "list_all (\<lambda>(k, p). peerId p = k) (AList.delete k ps)"
    using assms by (auto simp: wf_peers_def list_all_iff AList.delete_eq)
  ultimately show ?thesis by (simp add: wf_peers_def)
qed


text \<open>
  \<^verbatim>\<open>removePeer\<close> itself takes a peer object, not an id, and tests only that the object is
  there: given the same object again, it closes the connection again. The removals by id
  below never do that, since the second lookup finds nothing.
\<close>

lemma removePeer_same_object_again:
  "snd (removePeer E (fst (removePeer E m (Some p))) (Some p)) = snd (removePeer E m (Some p))"
  by (simp add: removePeer_def)






lemma own_keys_set: "set (own_keys ps) = fst ` set ps"
  by (auto simp: own_keys_def)

lemma own_keys_distinct: "distinct (map fst ps) \<Longrightarrow> distinct (own_keys ps)"
  by (auto simp: own_keys_def)

lemma removePeer_events_verbose:
  "verbose m' = verbose m \<Longrightarrow> snd (removePeer E m' po) = snd (removePeer E m po)"
  by (simp add: removePeer_def split: option.splits)

text \<open>
  The loop over own keys \<open>ks\<close> followed by other keys \<open>rest\<close>: each own key is removed in
  turn, and the loop goes on with \<open>rest\<close> on what is left.
\<close>

lemma for_in_remove_own:
  assumes "wf_peers (peers m)" and "distinct ks" and "set ks \<subseteq> fst ` set (peers m)"
  shows "for_in_remove E m (ks @ rest) =
           (fst (for_in_remove E (m\<lparr>peers := filter (\<lambda>(k, _). k \<notin> set ks) (peers m)\<rparr>) rest),
            concat (map (\<lambda>k. snd (removePeer E m (map_of (peers m) k))) ks)
            @ fst (snd (for_in_remove E (m\<lparr>peers := filter (\<lambda>(k, _). k \<notin> set ks) (peers m)\<rparr>) rest)),
            snd (snd (for_in_remove E (m\<lparr>peers := filter (\<lambda>(k, _). k \<notin> set ks) (peers m)\<rparr>) rest)))"
  using assms
proof (induction ks arbitrary: m)
  case Nil
  then show ?case by simp
next
  case (Cons k ks)
  from Cons.prems(3) obtain p where look: "map_of (peers m) k = Some p"
    by (cases "map_of (peers m) k") (auto simp: map_of_eq_None_iff)
  then have pk: "peerId p = k"
    using Cons.prems(1) by (rule wf_peers_lookup [rotated])
  define m1 where "m1 = m\<lparr>peers := AList.delete k (peers m)\<rparr>"
  have rm: "remove E m (peerId p) = (m1, snd (removePeer E m (Some p)), Returned)"
    using look pk by (simp add: remove_def get_peer_def removePeer_of_def removePeer_def m1_def)
  have wf1: "wf_peers (peers m1)"
    using Cons.prems(1) by (simp add: m1_def wf_peers_delete)
  have "k \<notin> set ks" using Cons.prems(2) by simp
  have sub1: "set ks \<subseteq> fst ` set (peers m1)"
  proof
    fix k' assume k': "k' \<in> set ks"
    with \<open>k \<notin> set ks\<close> have "k' \<noteq> k" by auto
    moreover from k' Cons.prems(3) have "map_of (peers m) k' \<noteq> None"
      by (auto simp: map_of_eq_None_iff)
    ultimately have "map_of (peers m1) k' \<noteq> None"
      by (simp add: m1_def)
    then show "k' \<in> fst ` set (peers m1)"
      by (simp add: map_of_eq_None_iff)
  qed
  have filt: "filter (\<lambda>(k', _). k' \<notin> set ks) (peers m1) =
              filter (\<lambda>(k', _). k' \<notin> set (k # ks)) (peers m)"
    by (auto simp: m1_def AList.delete_eq intro: filter_cong)
  have left: "m1\<lparr>peers := filter (\<lambda>(k', _). k' \<notin> set ks) (peers m1)\<rparr> =
              m\<lparr>peers := filter (\<lambda>(k', _). k' \<notin> set (k # ks)) (peers m)\<rparr>"
    unfolding filt by (simp add: m1_def)
  have evs: "map (\<lambda>k'. snd (removePeer E m1 (map_of (peers m1) k'))) ks =
             map (\<lambda>k'. snd (removePeer E m (map_of (peers m) k'))) ks"
  proof (rule map_cong [OF refl])
    fix k' assume "k' \<in> set ks"
    with \<open>k \<notin> set ks\<close> have "k' \<noteq> k" by auto
    then have "map_of (peers m1) k' = map_of (peers m) k'"
      by (simp add: m1_def)
    moreover have "verbose m1 = verbose m"
      by (simp add: m1_def)
    ultimately show "snd (removePeer E m1 (map_of (peers m1) k')) =
                     snd (removePeer E m (map_of (peers m) k'))"
      using removePeer_events_verbose [of m1 m E "map_of (peers m) k'"] by simp
  qed
  have step: "for_in_remove E m ((k # ks) @ rest) =
        (fst (for_in_remove E m1 (ks @ rest)),
         snd (removePeer E m (Some p)) @ fst (snd (for_in_remove E m1 (ks @ rest))),
         snd (snd (for_in_remove E m1 (ks @ rest))))"
    using look rm by (simp add: get_peer_def case_prod_beta)
  have dks: "distinct ks" using Cons.prems(2) by simp
  show ?case
    unfolding step Cons.IH [OF wf1 dks sub1] left evs
    using look by simp
qed

lemma for_in_remove_inherited_ignoreOffer:
  assumes "prototype_ignoreOffer m" and "map_of (peers m) ''ignoreOffer'' = None"
  shows "for_in_remove E m [''ignoreOffer''] = (m, [], Thrown TypeError)"
  using assms by (simp add: get_peer_def object_prototype_names_def)

lemma signalingDisconnectHandler_result:
  assumes "wf_peers (peers m)"
  shows "signalingDisconnectHandler E m =
           (m\<lparr>peers := []\<rparr>,
            concat (map (\<lambda>k. snd (removePeer E m (map_of (peers m) k))) (own_keys (peers m))),
            if prototype_ignoreOffer m \<and> ''ignoreOffer'' \<notin> set (map fst (peers m))
            then Thrown TypeError else Returned)"
proof -
  have dk: "distinct (own_keys (peers m))"
    using assms by (simp add: wf_peers_def own_keys_distinct)
  have sub: "set (own_keys (peers m)) \<subseteq> fst ` set (peers m)"
    by (simp add: own_keys_set)
  have none: "filter (\<lambda>(k, _). k \<notin> set (own_keys (peers m))) (peers m) = []"
    by (auto simp: own_keys_set filter_empty_conv image_iff)
  show ?thesis
  proof (cases "prototype_ignoreOffer m \<and> ''ignoreOffer'' \<notin> set (map fst (peers m))")
    case True
    then have keys: "for_in_keys m = own_keys (peers m) @ [''ignoreOffer'']"
      by (simp add: for_in_keys_def)
    have "for_in_remove E (m\<lparr>peers := []\<rparr>) [''ignoreOffer''] = (m\<lparr>peers := []\<rparr>, [], Thrown TypeError)"
      using True by (intro for_in_remove_inherited_ignoreOffer) simp_all
    with True show ?thesis
      unfolding signalingDisconnectHandler_def keys
        for_in_remove_own [OF assms dk sub, of E "[''ignoreOffer'']"] none
      by simp
  next
    case False
    then have keys: "for_in_keys m = own_keys (peers m) @ []"
      by (auto simp: for_in_keys_def)
    from False show ?thesis
      unfolding signalingDisconnectHandler_def keys
        for_in_remove_own [OF assms dk sub, of E "[]"] none
      by auto
  qed
qed





subsection \<open>The invariant holds in every reachable state\<close>

text \<open>
  The two removal theorems assume \<open>wf_peers\<close>. It holds after the constructor and every
  operation keeps it, so it holds in every state the manager reaches.
\<close>

lemma list_all_update:
  "list_all P ps \<Longrightarrow> P (k, v) \<Longrightarrow> list_all P (AList.update k v ps)"
  by (induction ps) auto

lemma wf_peers_update:
  assumes "wf_peers ps" and "peerId p = k"
  shows "wf_peers (AList.update k p ps)"
proof -
  have "distinct (map fst (AList.update k p ps))"
    using assms(1) by (simp add: wf_peers_def distinct_update)
  moreover have "list_all (\<lambda>(k, p). peerId p = k) (AList.update k p ps)"
    using assms by (intro list_all_update) (simp_all add: wf_peers_def)
  ultimately show ?thesis by (simp add: wf_peers_def)
qed

lemma wf_peers_filter:
  assumes "wf_peers ps"
  shows "wf_peers (filter P ps)"
proof -
  have "distinct (map fst (filter P ps))"
    using assms by (simp add: wf_peers_def distinct_map_filter)
  moreover have "list_all (\<lambda>(k, p). peerId p = k) (filter P ps)"
    using assms by (auto simp: wf_peers_def list_all_iff)
  ultimately show ?thesis by (simp add: wf_peers_def)
qed

lemma addPeer_wf:
  assumes "wf_peers (peers m)"
  shows "wf_peers (peers (fst (addPeer E m pid t pol)))"
proof (cases "in_peers m pid")
  case True
  with assms show ?thesis by (simp add: addPeer_def)
next
  case False
  then obtain c dc where "fst (addPeer E m pid t pol) =
      m\<lparr>peers := AList.update pid
          ((new_peer_object E pid t pol)\<lparr>rtcPeerConnection := c, dataChannel := dc\<rparr>) (peers m)\<rparr>"
    using addPeer_fresh [of m pid E t pol] by auto
  moreover have "peerId ((new_peer_object E pid t pol)\<lparr>rtcPeerConnection := c, dataChannel := dc\<rparr>) = pid"
    by (simp add: new_peer_object_def)
  ultimately show ?thesis
    using assms by (simp add: wf_peers_update)
qed

lemma forEach_addPeer_wf:
  "wf_peers (peers m) \<Longrightarrow> wf_peers (peers (fst (forEach_addPeer E m ns pol)))"
proof (induction ns arbitrary: m)
  case Nil
  then show ?case by simp
next
  case (Cons n ns)
  have "wf_peers (peers (fst (addPeer E m (np_peerId n) (np_peerType n) pol)))"
    using Cons.prems by (rule addPeer_wf)
  then have "wf_peers (peers (fst (forEach_addPeer E
      (fst (addPeer E m (np_peerId n) (np_peerType n) pol)) ns pol)))"
    by (rule Cons.IH)
  then show ?case
    by (simp add: case_prod_beta)
qed

lemma updateSessionDescription_peerId:
  "fst (updateSessionDescription E vb (Some p) dopt) = Some p' \<Longrightarrow> peerId p' = peerId p"
proof (cases dopt)
  case None
  assume "fst (updateSessionDescription E vb (Some p) dopt) = Some p'"
  with None show ?thesis by (simp add: updateSessionDescription_def)
next
  case (Some d)
  assume "fst (updateSessionDescription E vb (Some p) dopt) = Some p'"
  with Some updateSessionDescription_shape [of E vb p d] show ?thesis by auto
qed

lemma updateIceCandidate_peerId:
  "fst (updateIceCandidate E (Some p) candidate) = Some p' \<Longrightarrow> peerId p' = peerId p"
  by (auto simp: updateIceCandidate_def split: if_splits prod.splits option.splits)

lemma onnegotiationneeded_peerId: "peerId (fst (onnegotiationneeded E vb p)) = peerId p"
  by (auto simp: onnegotiationneeded_def split: prod.splits sum.splits option.splits)

lemma oniceconnectionstatechange_peerId: "peerId (fst (oniceconnectionstatechange E p)) = peerId p"
  by (simp add: oniceconnectionstatechange_def)

lemma removePeer_wf:
  "wf_peers (peers m) \<Longrightarrow> wf_peers (peers (fst (removePeer E m po)))"
  by (simp add: removePeer_def wf_peers_delete split: option.splits)

lemma removePeer_of_wf:
  "wf_peers (peers m) \<Longrightarrow> wf_peers (peers (fst (removePeer_of E m v)))"
  by (cases v) (simp_all add: removePeer_of_def removePeer_wf case_prod_beta)

lemma handled_session_peerId:
  assumes "wf_peers (peers m)"
  shows "fst (updateSessionDescription_of E vb (get_peer m k) dopt) = Some p' \<Longrightarrow> peerId p' = k"
    and "fst (updateIceCandidate_of E (get_peer m k) candidate) = Some p' \<Longrightarrow> peerId p' = k"
proof -
  assume r: "fst (updateSessionDescription_of E vb (get_peer m k) dopt) = Some p'"
  then obtain p where gp: "get_peer m k = PeerObject p"
    by (cases "get_peer m k")
       (simp_all add: updateSessionDescription_of_def updateSessionDescription_def)
  then have "peerId p = k"
    using assms by (simp add: get_peer_session wf_peers_lookup)
  moreover have "peerId p' = peerId p"
    using r gp by (simp add: updateSessionDescription_of_def updateSessionDescription_peerId)
  ultimately show "peerId p' = k" by simp
next
  assume r: "fst (updateIceCandidate_of E (get_peer m k) candidate) = Some p'"
  then obtain p where gp: "get_peer m k = PeerObject p"
    by (cases "get_peer m k")
       (simp_all add: updateIceCandidate_of_def updateIceCandidate_def)
  then have "peerId p = k"
    using assms by (simp add: get_peer_session wf_peers_lookup)
  moreover have "peerId p' = peerId p"
    using r gp by (simp add: updateIceCandidate_of_def updateIceCandidate_peerId)
  ultimately show "peerId p' = k" by simp
qed

lemma store_result_wf:
  assumes "wf_peers ps" and "\<And>p'. po = Some p' \<Longrightarrow> peerId p' = k"
  shows "wf_peers (store_peer k po ps)"
  using assms by (cases po) (simp_all add: store_peer_def wf_peers_update)

lemma signalingMessageHandler_wf:
  assumes "wf_peers (peers m)"
  shows "wf_peers (peers (fst (signalingMessageHandler E m msg)))"
proof (cases "payload msg")
  case None
  with assms show ?thesis by (simp add: signalingMessageHandler_def)
next
  case (Some pl)
  consider (opened) "action pl = ''open''" | (closed) "action pl = ''close''"
    | (sdp) "action pl = ''sdp''" | (ice) "action pl = ''ice''"
    | (other) "action pl \<noteq> ''open''" "action pl \<noteq> ''close''" "action pl \<noteq> ''sdp''"
        "action pl \<noteq> ''ice''"
    by blast
  then show ?thesis
  proof cases
    case opened
    with Some assms forEach_addPeer_wf [of m E _ "bePolite pl"] show ?thesis
      by (auto simp: signalingMessageHandler_def case_prod_beta split: option.splits)
  next
    case closed
    with Some removePeer_of_wf [OF assms, of E "get_peer m (from' msg)"] show ?thesis
      by (simp add: signalingMessageHandler_def)
  next
    case sdp
    have "wf_peers (store_peer (from' msg)
        (fst (updateSessionDescription_of E (verbose m) (get_peer m (from' msg)) (pl_sdp pl)))
        (peers m))"
      using assms by (rule store_result_wf) (rule handled_session_peerId(1) [OF assms])
    with Some sdp assms show ?thesis
      by (simp add: signalingMessageHandler_def case_prod_beta)
  next
    case ice
    have "wf_peers (store_peer (from' msg)
        (fst (updateIceCandidate_of E (get_peer m (from' msg)) (ice pl))) (peers m))"
      using assms by (rule store_result_wf) (rule handled_session_peerId(2) [OF assms])
    with Some ice assms show ?thesis
      by (simp add: signalingMessageHandler_def case_prod_beta)
  next
    case other
    with Some assms show ?thesis by (simp add: signalingMessageHandler_def)
  qed
qed

lemma signalingDisconnectHandler_wf:
  assumes "wf_peers (peers m)"
  shows "wf_peers (peers (fst (signalingDisconnectHandler E m)))"
  by (simp add: signalingDisconnectHandler_result [OF assms] wf_peers_def)

lemma negotiationneeded_wf:
  assumes "wf_peers (peers m)"
  shows "wf_peers (peers (fst (negotiationneeded E m pid)))"
proof (cases "map_of (peers m) pid")
  case None
  with assms show ?thesis by (simp add: negotiationneeded_def)
next
  case (Some p)
  have "peerId (fst (onnegotiationneeded E (verbose m) p)) = pid"
    using wf_peers_lookup [OF assms Some] by (simp add: onnegotiationneeded_peerId)
  with Some assms show ?thesis
    by (simp add: negotiationneeded_def store_peer_def wf_peers_update case_prod_beta)
qed

lemma iceconnectionstatechange_wf:
  assumes "wf_peers (peers m)"
  shows "wf_peers (peers (fst (iceconnectionstatechange E m pid)))"
proof (cases "map_of (peers m) pid")
  case None
  with assms show ?thesis by (simp add: iceconnectionstatechange_def)
next
  case (Some p)
  have "peerId (fst (oniceconnectionstatechange E p)) = pid"
    using wf_peers_lookup [OF assms Some] by (simp add: oniceconnectionstatechange_peerId)
  with Some assms show ?thesis
    by (simp add: iceconnectionstatechange_def store_peer_def wf_peers_update case_prod_beta)
qed

lemma reachable_wf_peers: "reachable E m \<Longrightarrow> wf_peers (peers m)"
proof (induction rule: reachable.induct)
  case (constructed m)
  then show ?case by (simp add: wf_peers_def)
next
  case (message m msg)
  then show ?case by (simp add: signalingMessageHandler_wf)
next
  case (disconnect m)
  then show ?case by (simp add: signalingDisconnectHandler_wf)
next
  case (added m pid ptype pol)
  then show ?case by (simp add: addPeer_wf)
next
  case (removed m pid)
  then show ?case by (simp add: remove_def removePeer_of_wf)
next
  case (negotiation m pid)
  then show ?case by (simp add: negotiationneeded_wf)
next
  case (ice_state m pid)
  then show ?case by (simp add: iceconnectionstatechange_wf)
qed

end
